theory Spec2Isabelle
  imports Main
begin

section \<open>Well-Known DID Configuration: issuing, assembling and verifying\<close>

text \<open>
  The module \<^verbatim>\<open>wellKnownDidConfiguration.ts\<close> is glue around an identity SDK. Its own
  logic (the order of the checks, which error each one raises, which fields are copied
  where) is embedded below; every call into \<^verbatim>\<open>@kiltprotocol/sdk-js\<close>,
  \<^verbatim>\<open>@kiltprotocol/vc-export\<close> and \<^verbatim>\<open>valid-url\<close> is a field of the record \<open>SDK\<close>,
  so that each theorem holds for whatever these libraries and the ledger answer.
\<close>

subsection \<open>Errors\<close>

text \<open>
  The source throws \<^verbatim>\<open>new Error(message)\<close>; the constructors carry the names the
  specification gives to these failures. \<open>TypeError\<close> is the error the JavaScript
  runtime raises on a property read of \<^verbatim>\<open>undefined\<close>; \<open>SdkError\<close> is any error raised
  inside an SDK call whose result is a sum.
\<close>

datatype error =
    DidResolutionError
  | InvalidOriginError
  | MissingAssertionKeyError
  | MalformedClaimError
  | InvalidDidError
  | DidMismatchError
  | IssuerMismatchError
  | OriginMismatchError
  | SignatureVerificationError
  | TypeError
  | SdkError string

subsection \<open>Data model\<close>

type_synonym DidUri = string
type_synonym DidResourceUri = string

record DidVerificationKey =
  key_id :: string

record DidDocument =
  uri :: DidUri
  assertionMethod :: "DidVerificationKey list option"

record DidResolutionResult =
  document :: "DidDocument option"

text \<open>A claim's contents are a dictionary from property names to JSON values.\<close>

datatype claimValue = VString string | VNumber int | VBoolean bool | VObject

record IClaim =
  cTypeHash :: string
  contents :: "string \<rightharpoonup> claimValue"
  owner :: "DidUri option"

record ICredential =
  claim :: IClaim
  claimHashes :: "string list"
  claimNonceMap :: "string \<rightharpoonup> string"
  delegationId :: "string option"
  rootHash :: string

record ClaimerSignature =
  keyUri :: DidResourceUri
  signature :: string
  challenge :: "string option"

record ICredentialPresentation = ICredential +
  claimerSignature :: ClaimerSignature

text \<open>
  Modelled from the spec: the declarations of \<^verbatim>\<open>../types/types\<close> (\<open>CredentialSubject\<close>,
  \<open>DomainLinkageCredential\<close>, \<open>VerifiableDomainLinkagePresentation\<close>) are not among the
  sources. The records have the fields of the object literals that
  \<open>getDomainLinkagePresentation\<close> builds and of section 3 of the specification;
  \<open>subject_rootHash\<close> is the property \<^verbatim>\<open>rootHash\<close> that the integration test expects in
  \<^verbatim>\<open>credentialSubject\<close>, \<open>None\<close> when the object has no such property.
\<close>

record CredentialSubject =
  subject_id :: DidUri
  subject_origin :: string
  subject_rootHash :: "string option"

record SelfSignedProof =
  proof_type :: string
  proofPurpose :: string
  verificationMethod :: string
  proof_signature :: string
  proof_challenge :: "string option"

record DomainLinkageCredential =
  credential_context :: "string list"
  credential_id :: string
  issuer :: DidUri
  issuanceDate :: string
  expirationDate :: string
  credential_type :: "string list"
  credentialSubject :: CredentialSubject
  credential_proof :: SelfSignedProof

record VerifiableDomainLinkagePresentation =
  presentation_context :: string
  linked_dids :: "DomainLinkageCredential list"

subsection \<open>The external services\<close>

record CTypeSchema =
  schema_uri :: string
  title :: string
  properties :: "(string \<times> string) list"
  schema_type :: string

record ICType = CTypeSchema +
  ctype_id :: string

record SignRequestData =
  request_data :: "nat list"
  request_did :: "DidUri option"
  keyRelationship :: string

record SignResponseData =
  response_signature :: "nat list"
  response_keyType :: string
  response_keyUri :: DidResourceUri

type_synonym SignCallback = "SignRequestData \<Rightarrow> error + SignResponseData"

record DidSignatureVerificationInput =
  expectedVerificationMethod :: string
  signature_keyUri :: DidResourceUri
  signature_signature :: string
  message :: "nat list"

text \<open>
  One field per imported function. A function that can throw returns a sum; the two
  validators are predicates (\<open>False\<close> is the thrown error, respectively the
  \<^verbatim>\<open>undefined\<close> that \<^verbatim>\<open>validUrl.isUri\<close> returns).
\<close>

record SDK =
  Did_resolve :: "DidUri \<Rightarrow> error + DidResolutionResult option"
  Did_validateUri :: "string \<Rightarrow> bool"
  Did_verifyDidSignature :: "DidSignatureVerificationInput \<Rightarrow> bool"
  validUrl_isUri :: "string \<Rightarrow> bool"
  CType_fromSchema :: "CTypeSchema \<Rightarrow> ICType"
  Claim_fromCTypeAndClaimContents ::
    "ICType \<Rightarrow> (string \<rightharpoonup> claimValue) \<Rightarrow> DidUri \<Rightarrow> error + IClaim"
  Credential_fromClaim :: "IClaim \<Rightarrow> error + ICredential"
  Credential_createPresentation ::
    "ICredential \<Rightarrow> SignCallback \<Rightarrow> error + ICredentialPresentation"
  Crypto_coToUInt8 :: "string \<Rightarrow> nat list"
  VcExport_toCredentialIRI :: "string \<Rightarrow> error + string"
  VcExport_fromCredentialIRI :: "string \<Rightarrow> error + string"

subsection \<open>Constants\<close>

definition DEFAULT_VERIFIABLECREDENTIAL_TYPE :: string where
  "DEFAULT_VERIFIABLECREDENTIAL_TYPE = ''VerifiableCredential''"

definition KILT_VERIFIABLECREDENTIAL_TYPE :: string where
  "KILT_VERIFIABLECREDENTIAL_TYPE = ''KiltCredential2020''"

definition KILT_SELF_SIGNED_PROOF_TYPE :: string where
  "KILT_SELF_SIGNED_PROOF_TYPE = ''KILTSelfSigned2020''"

definition DID_CONFIGURATION_CONTEXT :: string where
  "DID_CONFIGURATION_CONTEXT = ''https://identity.foundation/.well-known/did-configuration/v1''"

definition DID_VC_CONTEXT :: string where
  "DID_VC_CONTEXT = ''https://www.w3.org/2018/credentials/v1''"

definition ctypeDomainLinkage :: "SDK \<Rightarrow> ICType" where
  "ctypeDomainLinkage sdk = CType_fromSchema sdk
     \<lparr> schema_uri = ''http://kilt-protocol.org/draft-01/ctype#'',
       title = ''Domain Linkage Credential'',
       properties = [(''origin'', ''string'')],
       schema_type = ''object'' \<rparr>"

subsection \<open>The JavaScript runtime: truthiness and dates\<close>

text \<open>
  \<^verbatim>\<open>!x\<close> holds of \<^verbatim>\<open>undefined\<close>, the empty string, zero and \<^verbatim>\<open>false\<close>; an object
  is always truthy.
\<close>

fun truthy_string :: "string option \<Rightarrow> bool" where
  "truthy_string None = False"
| "truthy_string (Some s) = (s \<noteq> [])"

fun truthy :: "claimValue option \<Rightarrow> bool" where
  "truthy None = False"
| "truthy (Some (VString s)) = (s \<noteq> [])"
| "truthy (Some (VNumber n)) = (n \<noteq> 0)"
| "truthy (Some (VBoolean b)) = b"
| "truthy (Some VObject) = True"

text \<open>
  \<^verbatim>\<open>new Date(t).toISOString()\<close> for a time value \<open>t\<close> in milliseconds since the epoch:
  \<^verbatim>\<open>YYYY-MM-DDTHH:mm:ss.sssZ\<close> in UTC, the year with a sign and six digits outside
  0..9999. The days are converted to a proleptic Gregorian date. The clock values the
  code passes are \<^verbatim>\<open>Date.now()\<close> and \<^verbatim>\<open>Date.now()\<close> plus a constant, which are valid
  time values, so the \<^verbatim>\<open>RangeError\<close> of an invalid date has no branch here.
\<close>

primrec dec_digits :: "nat \<Rightarrow> int \<Rightarrow> string" where
  "dec_digits 0 v = []"
| "dec_digits (Suc n) v = dec_digits n (v div 10) @ [''0123456789'' ! nat (v mod 10)]"

definition civil_from_days :: "int \<Rightarrow> int \<times> int \<times> int" where
  "civil_from_days days =
     (let z = days + 719468;
          era = z div 146097;
          doe = z - era * 146097;
          yoe = (doe - doe div 1460 + doe div 36524 - doe div 146096) div 365;
          doy = doe - (365 * yoe + yoe div 4 - yoe div 100);
          mp = (5 * doy + 2) div 153;
          d = doy - (153 * mp + 2) div 5 + 1;
          m = (if mp < 10 then mp + 3 else mp - 9);
          y = yoe + era * 400 + (if m \<le> 2 then 1 else 0)
      in (y, m, d))"

definition year_digits :: "int \<Rightarrow> string" where
  "year_digits y =
     (if 0 \<le> y \<and> y \<le> 9999 then dec_digits 4 y
      else (if y < 0 then ''-'' else ''+'') @ dec_digits 6 \<bar>y\<bar>)"

definition toISOString :: "int \<Rightarrow> string" where
  "toISOString t =
     (let ms = t mod 86400000 in
      case civil_from_days (t div 86400000) of (y, m, d) \<Rightarrow>
        year_digits y @ ''-'' @ dec_digits 2 m @ ''-'' @ dec_digits 2 d @ ''T'' @
        dec_digits 2 (ms div 3600000) @ '':'' @ dec_digits 2 (ms div 60000 mod 60) @ '':'' @
        dec_digits 2 (ms div 1000 mod 60) @ ''.'' @ dec_digits 3 (ms mod 1000) @ ''Z'')"

subsection \<open>createCredential\<close>

text \<open>
  The DID is resolved first; the origin is validated only once a document has been
  found. \<^verbatim>\<open>document.assertionMethod?.[0]\<close> is \<^verbatim>\<open>undefined\<close> when the list is absent or
  empty.
\<close>

definition first_assertionKey :: "DidDocument \<Rightarrow> DidVerificationKey option" where
  "first_assertionKey doc =
     (case assertionMethod doc of
        None \<Rightarrow> None
      | Some [] \<Rightarrow> None
      | Some (key # _) \<Rightarrow> Some key)"

definition resolved_document :: "DidResolutionResult option \<Rightarrow> DidDocument option" where
  "resolved_document fullDid = (case fullDid of None \<Rightarrow> None | Some r \<Rightarrow> document r)"

definition createCredential ::
  "SDK \<Rightarrow> SignCallback \<Rightarrow> string \<Rightarrow> DidUri \<Rightarrow> error + ICredentialPresentation" where
  "createCredential sdk signCallback origin didUri =
     (case Did_resolve sdk didUri of
        Inl e \<Rightarrow> Inl e
      | Inr fullDid \<Rightarrow>
     (case resolved_document fullDid of
        None \<Rightarrow> Inl DidResolutionError
      | Some doc \<Rightarrow>
     if \<not> validUrl_isUri sdk origin then Inl InvalidOriginError
     else
     (case Claim_fromCTypeAndClaimContents sdk (ctypeDomainLinkage sdk)
             [''origin'' \<mapsto> VString origin] (uri doc) of
        Inl e \<Rightarrow> Inl e
      | Inr cl \<Rightarrow>
     (case Credential_fromClaim sdk cl of
        Inl e \<Rightarrow> Inl e
      | Inr credential \<Rightarrow>
     (case first_assertionKey doc of
        None \<Rightarrow> Inl MissingAssertionKeyError
      | Some assertionKey \<Rightarrow>
          Credential_createPresentation sdk credential signCallback)))))"

subsection \<open>getDomainLinkagePresentation\<close>

definition FIVE_YEARS_MS :: int where
  "FIVE_YEARS_MS = 1000 * 60 * 60 * 24 * 365 * 5"

text \<open>
  The clock is read twice: \<open>now_entry\<close> is what \<^verbatim>\<open>Date.now()\<close> returns when the default
  of the parameter \<^verbatim>\<open>expirationDate\<close> is evaluated (only when the caller passes none),
  \<open>now_issue\<close> what \<^verbatim>\<open>new Date()\<close> holds when \<^verbatim>\<open>issuanceDate\<close> is computed.

  The guard \<^verbatim>\<open>!credential.claim.owner && !claimContents.origin\<close> throws only when both
  are falsy. \<^verbatim>\<open>Did.validateUri\<close> throws on anything that is not a well-formed DID string,
  \<^verbatim>\<open>undefined\<close> included. An origin that is absent or not a string fails the
  \<^verbatim>\<open>typeof\<close> test; the specification files that failure and the one of the URL
  check under \<open>InvalidOriginError\<close>.
\<close>

definition default_expirationDate :: "int \<Rightarrow> string option \<Rightarrow> string" where
  "default_expirationDate now_entry arg =
     (case arg of Some s \<Rightarrow> s | None \<Rightarrow> toISOString (now_entry + FIVE_YEARS_MS))"

definition getDomainLinkagePresentation ::
  "SDK \<Rightarrow> int \<Rightarrow> int \<Rightarrow> ICredentialPresentation \<Rightarrow> string option
     \<Rightarrow> error + VerifiableDomainLinkagePresentation" where
  "getDomainLinkagePresentation sdk now_entry now_issue credential expirationDate_arg =
     (let expiration = default_expirationDate now_entry expirationDate_arg;
          claimContents = contents (claim credential)
      in
      if \<not> truthy_string (owner (claim credential)) \<and> \<not> truthy (claimContents ''origin'')
      then Inl MalformedClaimError
      else
      (case owner (claim credential) of
         None \<Rightarrow> Inl InvalidDidError
       | Some didUri \<Rightarrow>
      if \<not> Did_validateUri sdk didUri then Inl InvalidDidError
      else
      (case claimContents ''origin'' of
         Some (VString origin) \<Rightarrow>
           if \<not> validUrl_isUri sdk origin then Inl InvalidOriginError
           else
           (let subject = \<lparr> subject_id = didUri, subject_origin = origin,
                              subject_rootHash = None \<rparr>;
                issuance = toISOString now_issue;
                sig = claimerSignature credential
            in
            case VcExport_toCredentialIRI sdk (rootHash credential) of
              Inl e \<Rightarrow> Inl e
            | Inr iri \<Rightarrow>
            if \<not> Did_verifyDidSignature sdk
                   \<lparr> expectedVerificationMethod = ''assertionMethod'',
                     signature_keyUri = keyUri sig,
                     signature_signature = signature sig,
                     message = Crypto_coToUInt8 sdk (rootHash credential) \<rparr>
            then Inl SignatureVerificationError
            else
            Inr \<lparr> presentation_context = DID_CONFIGURATION_CONTEXT,
                  linked_dids =
                    [\<lparr> credential_context =
                         [''https://www.w3.org/2018/credentials/v1'', DID_CONFIGURATION_CONTEXT],
                       credential_id = iri,
                       issuer = didUri,
                       issuanceDate = issuance,
                       expirationDate = expiration,
                       credential_type =
                         [DEFAULT_VERIFIABLECREDENTIAL_TYPE, ''DomainLinkageCredential'',
                          KILT_VERIFIABLECREDENTIAL_TYPE],
                       credentialSubject = subject,
                       credential_proof =
                         \<lparr> proof_type = KILT_SELF_SIGNED_PROOF_TYPE,
                           proofPurpose = ''assertionMethod'',
                           verificationMethod = keyUri sig,
                           proof_signature = signature sig,
                           proof_challenge = challenge sig \<rparr> \<rparr>] \<rparr>)
       | _ \<Rightarrow> Inl InvalidOriginError)))"

subsection \<open>verifyDidConfigPresentation\<close>

text \<open>
  The checks of one entry, in the order of the callback. In
  \<^verbatim>\<open>document?.assertionMethod?.[0].id\<close> the chain stops at an absent list; on an empty
  list \<^verbatim>\<open>[0]\<close> is \<^verbatim>\<open>undefined\<close> and reading \<^verbatim>\<open>.id\<close> of it raises a \<^verbatim>\<open>TypeError\<close>.
\<close>

definition recoveredRootHash :: "SDK \<Rightarrow> DomainLinkageCredential \<Rightarrow> error + string" where
  "recoveredRootHash sdk credential = VcExport_fromCredentialIRI sdk (credential_id credential)"

definition verify ::
  "SDK \<Rightarrow> DidUri \<Rightarrow> string \<Rightarrow> DomainLinkageCredential \<Rightarrow> error + unit" where
  "verify sdk didUri origin credential =
     (let subject = credentialSubject credential in
      if didUri \<noteq> subject_id subject then Inl DidMismatchError
      else if \<not> Did_validateUri sdk (subject_id subject) then Inl InvalidDidError
      else if issuer credential \<noteq> subject_id subject then Inl IssuerMismatchError
      else if origin \<noteq> subject_origin subject then Inl OriginMismatchError
      else if \<not> validUrl_isUri sdk origin then Inl InvalidOriginError
      else
      (case Did_resolve sdk didUri of
         Inl e \<Rightarrow> Inl e
       | Inr fullDid \<Rightarrow>
      (case resolved_document fullDid of
         None \<Rightarrow> Inl DidResolutionError
       | Some doc \<Rightarrow>
      (case assertionMethod doc of
         None \<Rightarrow> Inl MissingAssertionKeyError
       | Some [] \<Rightarrow> Inl TypeError
       | Some (key # _) \<Rightarrow>
      if key_id key = [] then Inl MissingAssertionKeyError
      else
      (case recoveredRootHash sdk credential of
         Inl e \<Rightarrow> Inl e
       | Inr root \<Rightarrow>
      if \<not> Did_verifyDidSignature sdk
             \<lparr> expectedVerificationMethod = ''assertionMethod'',
               signature_keyUri = verificationMethod (credential_proof credential),
               signature_signature = proof_signature (credential_proof credential),
               message = Crypto_coToUInt8 sdk root \<rparr>
      then Inl SignatureVerificationError
      else Inr ())))))"

text \<open>
  \<^verbatim>\<open>Promise.all\<close> fulfils when every promise fulfils and otherwise rejects with the
  reason of whichever promise rejects first. Which one that is depends on how the
  pending calls are scheduled, so the result is the set of outcomes that may be observed:
  success alone when no entry fails, else the errors of the failing entries.
\<close>

definition asyncSome ::
  "DomainLinkageCredential list \<Rightarrow> (DomainLinkageCredential \<Rightarrow> error + unit)
     \<Rightarrow> (error + unit) set" where
  "asyncSome credentials check =
     (let rejected = filter isl (map check credentials)
      in if rejected = [] then {Inr ()} else set rejected)"

definition verifyDidConfigPresentation ::
  "SDK \<Rightarrow> DidUri \<Rightarrow> VerifiableDomainLinkagePresentation \<Rightarrow> string
     \<Rightarrow> (error + unit) set" where
  "verifyDidConfigPresentation sdk didUri domainLinkageCredential origin =
     asyncSome (linked_dids domainLinkageCredential) (verify sdk didUri origin)"

subsection \<open>The credential-id codec\<close>

text \<open>
  Modelled from the spec: \<^verbatim>\<open>toCredentialIRI\<close> and \<^verbatim>\<open>fromCredentialIRI\<close> belong to
  \<^verbatim>\<open>@kiltprotocol/vc-export\<close>, which is not among the sources. Section 4.3 of the
  specification describes the encoding as a reversible transform that turns the root hash
  into a URN-style IRI and whose inverse extracts the root hash from an id; the verifier's
  comment says that decoding strips a prefix. The prefix chosen here is immaterial to
  what is proved.
\<close>

definition KILT_CREDENTIAL_IRI_PREFIX :: string where
  "KILT_CREDENTIAL_IRI_PREFIX = ''kilt:cred:''"

definition toCredentialIRI :: "string \<Rightarrow> string" where
  "toCredentialIRI root = KILT_CREDENTIAL_IRI_PREFIX @ root"

definition fromCredentialIRI :: "string \<Rightarrow> string" where
  "fromCredentialIRI credentialId =
     (if take (length KILT_CREDENTIAL_IRI_PREFIX) credentialId = KILT_CREDENTIAL_IRI_PREFIX
      then drop (length KILT_CREDENTIAL_IRI_PREFIX) credentialId
      else credentialId)"

subsection \<open>A test environment\<close>

text \<open>
  The scenario of the integration test: the origin \<^verbatim>\<open>http://localhost:3927\<close>, one
  registered DID with one assertion-method key, and a signer bound to that key. The
  signature scheme is a stand-in (the signature of a message is the message), enough for
  a tampered signature to be rejected.
\<close>

definition test_did :: DidUri where
  "test_did = ''did:kilt:4tEpuncfo6HYdkH8LKg4KJWYSB3mincgdX19VHivk9cxSz3F''"

definition test_origin :: string where
  "test_origin = ''http://localhost:3927''"

definition test_rootHash :: string where
  "test_rootHash = ''0xabcd''"

definition test_document :: DidDocument where
  "test_document = \<lparr> uri = test_did, assertionMethod = Some [\<lparr> key_id = ''#assertion'' \<rparr>] \<rparr>"

definition test_keyUri :: DidResourceUri where
  "test_keyUri = ''did:kilt:4tEpuncfo6HYdkH8LKg4KJWYSB3mincgdX19VHivk9cxSz3F#assertion''"

definition test_signCallback :: SignCallback where
  "test_signCallback request =
     Inr \<lparr> response_signature = request_data request,
           response_keyType = ''sr25519'',
           response_keyUri = test_keyUri \<rparr>"

definition test_sdk :: SDK where
  "test_sdk =
     \<lparr> Did_resolve = (\<lambda>did. if did = test_did
          then Inr (Some \<lparr> document = Some test_document \<rparr>) else Inr None),
       Did_validateUri = (\<lambda>s. take 10 s = ''did:kilt:4'' \<and> length s = 57),
       Did_verifyDidSignature = (\<lambda>input.
          expectedVerificationMethod input = ''assertionMethod'' \<and>
          signature_keyUri input = test_keyUri \<and>
          map of_char (signature_signature input) = message input),
       validUrl_isUri = (\<lambda>s. take 7 s = ''http://'' \<or> take 8 s = ''https://''),
       CType_fromSchema = (\<lambda>schema. CTypeSchema.extend schema
          (ICType.fields ''kilt:ctype:0x39dc'')),
       Claim_fromCTypeAndClaimContents = (\<lambda>cType claimContents claimOwner.
          Inr \<lparr> cTypeHash = drop 11 (ctype_id cType), contents = claimContents,
                owner = Some claimOwner \<rparr>),
       Credential_fromClaim = (\<lambda>cl.
          Inr \<lparr> claim = cl, claimHashes = [], claimNonceMap = Map.empty,
                delegationId = None, rootHash = test_rootHash \<rparr>),
       Credential_createPresentation = (\<lambda>credential signCallback.
          case signCallback \<lparr> request_data = map of_char (rootHash credential),
                 request_did = owner (claim credential),
                 keyRelationship = ''authentication'' \<rparr> of
            Inl e \<Rightarrow> Inl e
          | Inr response \<Rightarrow>
              Inr (ICredential.extend credential (ICredentialPresentation.fields
                \<lparr> keyUri = response_keyUri response,
                  signature = map char_of (response_signature response),
                  challenge = None \<rparr>))),
       Crypto_coToUInt8 = map of_char,
       VcExport_toCredentialIRI = (\<lambda>root. Inr (toCredentialIRI root)),
       VcExport_fromCredentialIRI = (\<lambda>credentialId. Inr (fromCredentialIRI credentialId)) \<rparr>"

definition test_presentation :: ICredentialPresentation where
  "test_presentation =
     \<lparr> claim = \<lparr> cTypeHash = ''0x39dc'',
                   contents = [''origin'' \<mapsto> VString test_origin],
                   owner = Some test_did \<rparr>,
       claimHashes = [], claimNonceMap = Map.empty, delegationId = None,
       rootHash = test_rootHash,
       claimerSignature =
         \<lparr> keyUri = test_keyUri, signature = test_rootHash, challenge = None \<rparr> \<rparr>"

definition test_entry :: DomainLinkageCredential where
  "test_entry =
     \<lparr> credential_context = [DID_VC_CONTEXT, DID_CONFIGURATION_CONTEXT],
       credential_id = ''kilt:cred:0xabcd'',
       issuer = test_did,
       issuanceDate = ''2023-11-14T22:13:20.001Z'',
       expirationDate = ''2028-11-12T22:13:20.000Z'',
       credential_type = [DEFAULT_VERIFIABLECREDENTIAL_TYPE, ''DomainLinkageCredential'',
                          KILT_VERIFIABLECREDENTIAL_TYPE],
       credentialSubject = \<lparr> subject_id = test_did, subject_origin = test_origin,
                              subject_rootHash = None \<rparr>,
       credential_proof =
         \<lparr> proof_type = KILT_SELF_SIGNED_PROOF_TYPE, proofPurpose = ''assertionMethod'',
           verificationMethod = test_keyUri, proof_signature = test_rootHash,
           proof_challenge = None \<rparr> \<rparr>"

definition test_envelope :: VerifiableDomainLinkagePresentation where
  "test_envelope =
     \<lparr> presentation_context = DID_CONFIGURATION_CONTEXT, linked_dids = [test_entry] \<rparr>"

definition test_tampered_entry :: DomainLinkageCredential where
  "test_tampered_entry =
     test_entry\<lparr>credential_proof :=
       (credential_proof test_entry)\<lparr>proof_signature := ''0x''\<rparr>\<rparr>"

definition test_presentation_no_origin :: ICredentialPresentation where
  "test_presentation_no_origin =
     test_presentation\<lparr>claim := (claim test_presentation)\<lparr>contents := Map.empty\<rparr>\<rparr>"

definition test_presentation_no_owner :: ICredentialPresentation where
  "test_presentation_no_owner =
     test_presentation\<lparr>claim := (claim test_presentation)\<lparr>owner := None\<rparr>\<rparr>"

definition test_presentation_bare :: ICredentialPresentation where
  "test_presentation_bare =
     test_presentation\<lparr>claim :=
       (claim test_presentation)\<lparr>contents := Map.empty, owner := None\<rparr>\<rparr>"

definition test_sdk_empty_keys :: SDK where
  "test_sdk_empty_keys =
     test_sdk\<lparr>Did_resolve := (\<lambda>did.
        Inr (Some \<lparr> document = Some \<lparr> uri = did, assertionMethod = Some [] \<rparr> \<rparr>))\<rparr>"

definition test_sdk_absent_keys :: SDK where
  "test_sdk_absent_keys =
     test_sdk\<lparr>Did_resolve := (\<lambda>did.
        Inr (Some \<lparr> document = Some \<lparr> uri = did, assertionMethod = None \<rparr> \<rparr>))\<rparr>"

definition test_malformed_did :: DidUri where
  "test_malformed_did = ''did:kilt:xyz''"

definition test_malformed_did_entry :: DomainLinkageCredential where
  "test_malformed_did_entry =
     test_entry\<lparr>credentialSubject :=
       (credentialSubject test_entry)\<lparr>subject_id := test_malformed_did\<rparr>\<rparr>"

definition test_foreign_issuer_entry :: DomainLinkageCredential where
  "test_foreign_issuer_entry =
     test_entry\<lparr>issuer := ''did:kilt:4siJtc4dYq2gPre8Xj6KJcSjVAdi1gmjctUzjf3AwrtNnhvy''\<rparr>"

section \<open>Properties\<close>

subsection \<open>The test environment, evaluated\<close>

lemma char_of_of_char_map: "map char_of (map of_char s :: nat list) = s"
  by (simp add: comp_def)

lemma test_create:
  "createCredential test_sdk test_signCallback test_origin test_did = Inr test_presentation"
  by (simp add: createCredential_def test_sdk_def test_signCallback_def test_origin_def
      test_did_def test_presentation_def resolved_document_def first_assertionKey_def
      test_document_def ICredential.extend_def ICredentialPresentation.fields_def test_keyUri_def
      ctypeDomainLinkage_def CTypeSchema.extend_def ICType.fields_def char_of_of_char_map)

lemma iso_issue: "toISOString 1700000000001 = ''2023-11-14T22:13:20.001Z''"
  by code_simp

lemma iso_default_expiry:
  "toISOString (1700000000000 + FIVE_YEARS_MS) = ''2028-11-12T22:13:20.000Z''"
  by code_simp

lemma test_assemble:
  "getDomainLinkagePresentation test_sdk 1700000000000 1700000000001 test_presentation None
     = Inr test_envelope"
  by (simp add: getDomainLinkagePresentation_def default_expirationDate_def iso_issue
      iso_default_expiry test_sdk_def test_presentation_def test_envelope_def test_entry_def
      test_did_def test_origin_def test_keyUri_def toCredentialIRI_def test_rootHash_def
      KILT_CREDENTIAL_IRI_PREFIX_def DID_VC_CONTEXT_def)

lemma test_verify_entry: "verify test_sdk test_did test_origin test_entry = Inr ()"
  by (simp add: verify_def test_sdk_def test_entry_def test_did_def test_origin_def
      test_keyUri_def resolved_document_def test_document_def recoveredRootHash_def
      fromCredentialIRI_def KILT_CREDENTIAL_IRI_PREFIX_def test_rootHash_def)

lemma test_verify_tampered:
  "verify test_sdk test_did test_origin test_tampered_entry = Inl SignatureVerificationError"
  by (simp add: verify_def test_sdk_def test_entry_def test_did_def test_origin_def
      test_keyUri_def resolved_document_def test_document_def recoveredRootHash_def
      fromCredentialIRI_def KILT_CREDENTIAL_IRI_PREFIX_def test_rootHash_def
      test_tampered_entry_def)

lemma iso_issue_plus_five_years:
  "toISOString (1700000000001 + FIVE_YEARS_MS) = ''2028-11-12T22:13:20.001Z''"
  by code_simp

lemma test_verify_foreign_issuer:
  "verify test_sdk test_did test_origin test_foreign_issuer_entry = Inl IssuerMismatchError"
  by (simp add: verify_def test_foreign_issuer_entry_def test_entry_def test_sdk_def
      test_did_def)

lemma test_sdk_codec:
  "test_sdk\<lparr>VcExport_toCredentialIRI := (\<lambda>r. Inr (toCredentialIRI r))\<rparr> = test_sdk"
  "test_sdk\<lparr>VcExport_fromCredentialIRI := (\<lambda>i. Inr (fromCredentialIRI i))\<rparr> = test_sdk"
  by (simp_all add: test_sdk_def)

subsection \<open>Promise.all\<close>

lemma asyncSome_fulfils:
  "(asyncSome credentials check = {Inr ()}) = (\<forall>c\<in>set credentials. check c = Inr ())"
proof
  assume ok: "asyncSome credentials check = {Inr ()}"
  show "\<forall>c\<in>set credentials. check c = Inr ()"
  proof
    fix c assume c: "c \<in> set credentials"
    show "check c = Inr ()"
    proof (cases "check c")
      case (Inl e)
      with c have mem: "Inl e \<in> set (filter isl (map check credentials))" by force
      then have "filter isl (map check credentials) \<noteq> []"
        by (metis empty_iff list.set(1))
      with ok mem have "Inl e \<in> {Inr ()::error + unit}"
        by (simp add: asyncSome_def Let_def)
      then show ?thesis by simp
    next
      case (Inr u)
      then show ?thesis by simp
    qed
  qed
next
  assume "\<forall>c\<in>set credentials. check c = Inr ()"
  then have "filter isl (map check credentials) = []"
    by (auto simp: filter_empty_conv)
  then show "asyncSome credentials check = {Inr ()}"
    by (simp add: asyncSome_def)
qed

lemma asyncSome_rejects:
  assumes "c \<in> set credentials" and "check c = Inl e"
  shows "asyncSome credentials check = {r \<in> check ` set credentials. isl r}"
proof -
  from assms have "Inl e \<in> set (filter isl (map check credentials))" by force
  then have "filter isl (map check credentials) \<noteq> []"
    by (metis empty_iff list.set(1))
  then show ?thesis by (auto simp: asyncSome_def)
qed

subsection \<open>Verification of a whole presentation\<close>

text \<open>
  C10. A presentation whose \<open>linked_dids\<close> list is empty verifies for every expected DID,
  every origin and every behaviour of the SDK: no check is run, not even the validation
  of the origin.
\<close>

theorem verify_empty_linked_dids:
  "verifyDidConfigPresentation sdk didUri (domainLinkageCredential\<lparr>linked_dids := []\<rparr>) origin
     = {Inr ()}"
  by (simp add: verifyDidConfigPresentation_def asyncSome_def)

text \<open>
  C4. The call succeeds exactly when every entry passes all of its checks; as soon as one
  entry fails, success is not a possible outcome, and the call does settle (with the
  error of a failing entry).
\<close>

theorem verify_all_or_nothing:
  "(verifyDidConfigPresentation sdk didUri p origin = {Inr ()})
     = (\<forall>c\<in>set (linked_dids p). verify sdk didUri origin c = Inr ())
   \<and> ((\<exists>c\<in>set (linked_dids p). verify sdk didUri origin c \<noteq> Inr ())
        \<longrightarrow> Inr () \<notin> verifyDidConfigPresentation sdk didUri p origin
          \<and> verifyDidConfigPresentation sdk didUri p origin \<noteq> {})"
proof (intro conjI impI)
  show "(verifyDidConfigPresentation sdk didUri p origin = {Inr ()})
     = (\<forall>c\<in>set (linked_dids p). verify sdk didUri origin c = Inr ())"
    unfolding verifyDidConfigPresentation_def by (rule asyncSome_fulfils)
next
  assume "\<exists>c\<in>set (linked_dids p). verify sdk didUri origin c \<noteq> Inr ()"
  then obtain c where c: "c \<in> set (linked_dids p)" and bad: "verify sdk didUri origin c \<noteq> Inr ()"
    by blast
  from bad obtain e where e: "verify sdk didUri origin c = Inl e"
    by (cases "verify sdk didUri origin c") auto
  have eq: "verifyDidConfigPresentation sdk didUri p origin
              = {r \<in> verify sdk didUri origin ` set (linked_dids p). isl r}"
    unfolding verifyDidConfigPresentation_def
    by (rule asyncSome_rejects [where check = "verify sdk didUri origin", OF c e])
  show "Inr () \<notin> verifyDidConfigPresentation sdk didUri p origin"
    by (simp add: eq)
  from c e have "Inl e \<in> verifyDidConfigPresentation sdk didUri p origin"
    unfolding eq by force
  then show "verifyDidConfigPresentation sdk didUri p origin \<noteq> {}" by blast
qed

theorem verify_all_or_nothing_witness:
  "verifyDidConfigPresentation test_sdk test_did test_envelope test_origin = {Inr ()}
   \<and> Inr () \<notin> verifyDidConfigPresentation test_sdk test_did
        (test_envelope\<lparr>linked_dids := [test_entry, test_tampered_entry]\<rparr>) test_origin"
proof
  have "\<forall>c\<in>set (linked_dids test_envelope). verify test_sdk test_did test_origin c = Inr ()"
    by (simp add: test_envelope_def test_verify_entry)
  with verify_all_or_nothing [of test_sdk test_did test_envelope test_origin]
  show "verifyDidConfigPresentation test_sdk test_did test_envelope test_origin = {Inr ()}"
    by blast
next
  let ?p = "test_envelope\<lparr>linked_dids := [test_entry, test_tampered_entry]\<rparr>"
  have "\<exists>c\<in>set (linked_dids ?p). verify test_sdk test_did test_origin c \<noteq> Inr ()"
    by (simp add: test_verify_tampered)
  with verify_all_or_nothing [of test_sdk test_did ?p test_origin]
  show "Inr () \<notin> verifyDidConfigPresentation test_sdk test_did ?p test_origin"
    by blast
qed

subsection \<open>Issuance, assembly and verification in sequence\<close>

text \<open>
  C1. Round trip. For a valid (non-empty) origin and a DID that resolves to a document
  with an assertion-method key, the presentation issued by \<open>createCredential\<close> is
  accepted by \<open>getDomainLinkagePresentation\<close>, and the envelope it assembles verifies
  against the same DID and origin. The SDK is a parameter, so its contract is spelled
  out: the resolver answers with the document of the DID asked for, the DID passes the
  SDK's syntax check, the claim and credential constructors keep the contents and the
  owner they are given, the signature returned through the signing callback verifies
  under \<^verbatim>\<open>assertionMethod\<close> for the root hash, and the id codec decodes what it encoded.
  The ledger and the libraries answer the same way in all three calls.
\<close>

theorem issue_assemble_verify_round_trip:
  assumes origin_valid: "validUrl_isUri sdk origin" "origin \<noteq> []"
    and resolved: "Did_resolve sdk didUri = Inr fullDid" "resolved_document fullDid = Some doc"
    and same_did: "uri doc = didUri"
    and did_valid: "Did_validateUri sdk didUri"
    and has_key: "assertionMethod doc = Some (key # keys)" "key_id key \<noteq> []"
    and claim_built:
      "Claim_fromCTypeAndClaimContents sdk (ctypeDomainLinkage sdk)
         [''origin'' \<mapsto> VString origin] (uri doc) = Inr cl"
      "owner cl = Some (uri doc)" "contents cl ''origin'' = Some (VString origin)"
    and hashed: "Credential_fromClaim sdk cl = Inr credential"
    and signed: "Credential_createPresentation sdk credential signCallback = Inr presentation"
      "claim presentation = cl"
    and signature_valid:
      "Did_verifyDidSignature sdk
         \<lparr> expectedVerificationMethod = ''assertionMethod'',
           signature_keyUri = keyUri (claimerSignature presentation),
           signature_signature = signature (claimerSignature presentation),
           message = Crypto_coToUInt8 sdk (rootHash presentation) \<rparr>"
    and codec: "VcExport_toCredentialIRI sdk (rootHash presentation) = Inr iri"
      "VcExport_fromCredentialIRI sdk iri = Inr (rootHash presentation)"
  shows "createCredential sdk signCallback origin didUri = Inr presentation
    \<and> (\<exists>envelope.
          getDomainLinkagePresentation sdk now_entry now_issue presentation expirationDate_arg
            = Inr envelope
        \<and> verifyDidConfigPresentation sdk didUri envelope origin = {Inr ()})"
proof (intro conjI)
  have first_key: "first_assertionKey doc = Some key"
    using has_key(1) by (simp add: first_assertionKey_def)
  show "createCredential sdk signCallback origin didUri = Inr presentation"
    by (simp add: createCredential_def resolved origin_valid claim_built(1) hashed first_key
        signed(1))
next
  let ?entry = "\<lparr> credential_context =
                   [''https://www.w3.org/2018/credentials/v1'', DID_CONFIGURATION_CONTEXT],
                 credential_id = iri,
                 issuer = didUri,
                 issuanceDate = toISOString now_issue,
                 expirationDate = default_expirationDate now_entry expirationDate_arg,
                 credential_type =
                   [DEFAULT_VERIFIABLECREDENTIAL_TYPE, ''DomainLinkageCredential'',
                    KILT_VERIFIABLECREDENTIAL_TYPE],
                 credentialSubject = \<lparr> subject_id = didUri, subject_origin = origin,
                                        subject_rootHash = None \<rparr>,
                 credential_proof =
                   \<lparr> proof_type = KILT_SELF_SIGNED_PROOF_TYPE,
                     proofPurpose = ''assertionMethod'',
                     verificationMethod = keyUri (claimerSignature presentation),
                     proof_signature = signature (claimerSignature presentation),
                     proof_challenge = challenge (claimerSignature presentation) \<rparr> \<rparr>"
  let ?envelope = "\<lparr> presentation_context = DID_CONFIGURATION_CONTEXT, linked_dids = [?entry] \<rparr>"
  have assembled:
    "getDomainLinkagePresentation sdk now_entry now_issue presentation expirationDate_arg
       = Inr ?envelope"
    using origin_valid did_valid signature_valid codec(1)
    by (simp add: getDomainLinkagePresentation_def signed(2) claim_built(2,3) same_did Let_def)
  have entry_ok: "verify sdk didUri origin ?entry = Inr ()"
    using origin_valid did_valid signature_valid codec(2) has_key
    by (simp add: verify_def resolved recoveredRootHash_def)
  have "verifyDidConfigPresentation sdk didUri ?envelope origin = {Inr ()}"
    by (simp add: verifyDidConfigPresentation_def asyncSome_fulfils entry_ok)
  with assembled show "\<exists>envelope.
          getDomainLinkagePresentation sdk now_entry now_issue presentation expirationDate_arg
            = Inr envelope
        \<and> verifyDidConfigPresentation sdk didUri envelope origin = {Inr ()}"
    by blast
qed

theorem issue_assemble_verify_round_trip_witness:
  "createCredential test_sdk test_signCallback test_origin test_did = Inr test_presentation
    \<and> (\<exists>envelope.
          getDomainLinkagePresentation test_sdk 1700000000000 1700000000001 test_presentation None
            = Inr envelope
        \<and> verifyDidConfigPresentation test_sdk test_did envelope test_origin = {Inr ()})"
proof (rule issue_assemble_verify_round_trip
    [where fullDid = "Some \<lparr> document = Some test_document \<rparr>" and doc = test_document
       and key = "\<lparr> key_id = ''#assertion'' \<rparr>" and keys = "[]"
       and cl = "claim test_presentation"
       and credential = "ICredential.truncate test_presentation"
       and iri = "''kilt:cred:0xabcd''"])
  show "validUrl_isUri test_sdk test_origin"
    by (simp add: test_sdk_def test_origin_def)
  show "test_origin \<noteq> []"
    by (simp add: test_origin_def)
  show "Did_resolve test_sdk test_did = Inr (Some \<lparr> document = Some test_document \<rparr>)"
    by (simp add: test_sdk_def)
  show "resolved_document (Some \<lparr> document = Some test_document \<rparr>) = Some test_document"
    by (simp add: resolved_document_def)
  show "uri test_document = test_did"
    by (simp add: test_document_def)
  show "Did_validateUri test_sdk test_did"
    by (simp add: test_sdk_def test_did_def)
  show "assertionMethod test_document = Some [\<lparr> key_id = ''#assertion'' \<rparr>]"
    by (simp add: test_document_def)
  show "key_id \<lparr> key_id = ''#assertion'' \<rparr> \<noteq> []"
    by simp
  show "Claim_fromCTypeAndClaimContents test_sdk (ctypeDomainLinkage test_sdk)
         [''origin'' \<mapsto> VString test_origin] (uri test_document) = Inr (claim test_presentation)"
    by (simp add: test_sdk_def test_presentation_def test_document_def ctypeDomainLinkage_def
        CTypeSchema.extend_def ICType.fields_def)
  show "owner (claim test_presentation) = Some (uri test_document)"
    by (simp add: test_presentation_def test_document_def)
  show "contents (claim test_presentation) ''origin'' = Some (VString test_origin)"
    by (simp add: test_presentation_def)
  show "Credential_fromClaim test_sdk (claim test_presentation)
          = Inr (ICredential.truncate test_presentation)"
    by (simp add: test_sdk_def test_presentation_def ICredential.truncate_def)
  show "Credential_createPresentation test_sdk (ICredential.truncate test_presentation)
          test_signCallback = Inr test_presentation"
    by (simp add: test_sdk_def test_presentation_def ICredential.truncate_def
        test_signCallback_def ICredential.extend_def ICredentialPresentation.fields_def
        char_of_of_char_map)
  show "claim test_presentation = claim test_presentation" ..
  show "Did_verifyDidSignature test_sdk
         \<lparr> expectedVerificationMethod = ''assertionMethod'',
           signature_keyUri = keyUri (claimerSignature test_presentation),
           signature_signature = signature (claimerSignature test_presentation),
           message = Crypto_coToUInt8 test_sdk (rootHash test_presentation) \<rparr>"
    by (simp add: test_sdk_def test_presentation_def)
  show "VcExport_toCredentialIRI test_sdk (rootHash test_presentation) = Inr ''kilt:cred:0xabcd''"
    by (simp add: test_sdk_def test_presentation_def toCredentialIRI_def
        KILT_CREDENTIAL_IRI_PREFIX_def test_rootHash_def)
  show "VcExport_fromCredentialIRI test_sdk ''kilt:cred:0xabcd'' = Inr (rootHash test_presentation)"
    by (simp add: test_sdk_def test_presentation_def fromCredentialIRI_def
        KILT_CREDENTIAL_IRI_PREFIX_def test_rootHash_def)
qed

subsection \<open>What the assembler emits\<close>

lemma assembled_envelope:
  assumes "getDomainLinkagePresentation sdk now_entry now_issue credential expirationDate_arg
             = Inr envelope"
  shows "\<exists>didUri origin iri.
           owner (claim credential) = Some didUri
         \<and> contents (claim credential) ''origin'' = Some (VString origin)
         \<and> VcExport_toCredentialIRI sdk (rootHash credential) = Inr iri
         \<and> linked_dids envelope =
             [\<lparr> credential_context =
                  [''https://www.w3.org/2018/credentials/v1'', DID_CONFIGURATION_CONTEXT],
                credential_id = iri,
                issuer = didUri,
                issuanceDate = toISOString now_issue,
                expirationDate = default_expirationDate now_entry expirationDate_arg,
                credential_type =
                  [DEFAULT_VERIFIABLECREDENTIAL_TYPE, ''DomainLinkageCredential'',
                   KILT_VERIFIABLECREDENTIAL_TYPE],
                credentialSubject = \<lparr> subject_id = didUri, subject_origin = origin,
                                       subject_rootHash = None \<rparr>,
                credential_proof =
                  \<lparr> proof_type = KILT_SELF_SIGNED_PROOF_TYPE,
                    proofPurpose = ''assertionMethod'',
                    verificationMethod = keyUri (claimerSignature credential),
                    proof_signature = signature (claimerSignature credential),
                    proof_challenge = challenge (claimerSignature credential) \<rparr> \<rparr>]"
  using assms
  by (auto simp: getDomainLinkagePresentation_def Let_def
      split: if_splits option.splits claimValue.splits sum.splits)

text \<open>
  C3. The claim has the first linked credential's \<open>credentialSubject\<close> equal to
  \<^verbatim>\<open>{id, origin, rootHash}\<close>, which is also what the integration test expects. The
  object literal the code builds has \<^verbatim>\<open>id\<close> and \<^verbatim>\<open>origin\<close> only: evaluated on the
  presentation of the test scenario, the subject carries no root hash.
\<close>

theorem assembled_subject_has_no_rootHash:
  "getDomainLinkagePresentation test_sdk 1700000000000 1700000000001 test_presentation None
     = Inr test_envelope
   \<and> map credentialSubject (linked_dids test_envelope)
     = [\<lparr> subject_id = test_did, subject_origin = test_origin, subject_rootHash = None \<rparr>]
   \<and> map credentialSubject (linked_dids test_envelope)
     \<noteq> [\<lparr> subject_id = test_did, subject_origin = test_origin,
           subject_rootHash = Some (rootHash test_presentation) \<rparr>]"
  by (simp add: test_assemble test_envelope_def test_entry_def)

text \<open>
  C2. The claim has \<open>MalformedClaimError\<close> raised as soon as the origin or the owner is
  missing. The guard is a conjunction: with the owner set and no origin the call fails
  at the later type check of the origin, with the origin set and no owner it fails in
  the DID validation, and only with both missing does it fail in the guard itself.
\<close>

theorem assemble_one_missing_field_not_malformed:
  "getDomainLinkagePresentation test_sdk 1700000000000 1700000000001 test_presentation_no_origin None
     = Inl InvalidOriginError
   \<and> getDomainLinkagePresentation test_sdk 1700000000000 1700000000001 test_presentation_no_owner None
     = Inl InvalidDidError
   \<and> getDomainLinkagePresentation test_sdk 1700000000000 1700000000001 test_presentation_bare None
     = Inl MalformedClaimError"
  by (simp add: getDomainLinkagePresentation_def test_presentation_no_origin_def
      test_presentation_no_owner_def test_presentation_bare_def test_presentation_def
      test_sdk_def test_did_def test_origin_def Let_def)

text \<open>
  C9. Counterexample. The claim has the default expiration at the issuance time plus
  five years. With the clock at 1700000000000 on entry and one millisecond later when
  the issuance date is taken, the envelope is issued at 2023-11-14T22:13:20.001Z and
  expires at 2028-11-12T22:13:20.000Z: 1825 days after the clock value read on entry,
  which is neither five calendar years nor 1825 days after the issuance date.
\<close>

theorem default_expiration_counterexample:
  "getDomainLinkagePresentation test_sdk 1700000000000 1700000000001 test_presentation None
     = Inr test_envelope
   \<and> map issuanceDate (linked_dids test_envelope) = [''2023-11-14T22:13:20.001Z'']
   \<and> map issuanceDate (linked_dids test_envelope) = [toISOString 1700000000001]
   \<and> map expirationDate (linked_dids test_envelope) = [''2028-11-12T22:13:20.000Z'']
   \<and> map expirationDate (linked_dids test_envelope)
       \<noteq> [toISOString (1700000000001 + FIVE_YEARS_MS)]"
  by (simp add: test_assemble iso_issue iso_issue_plus_five_years test_envelope_def
      test_entry_def)

text \<open>
  C9, amended. When no expiration timestamp is supplied, \<open>expirationDate\<close> is the
  ISO rendering of the clock value read on entry plus 157680000000 ms, that is 5 times
  365 days; \<open>issuanceDate\<close> is the rendering of the second clock value.
\<close>

theorem default_expiration_from_entry_clock:
  assumes "getDomainLinkagePresentation sdk now_entry now_issue credential None = Inr envelope"
  shows "map expirationDate (linked_dids envelope) = [toISOString (now_entry + FIVE_YEARS_MS)]
    \<and> map issuanceDate (linked_dids envelope) = [toISOString now_issue]
    \<and> FIVE_YEARS_MS = 5 * (365 * 86400000)"
  using assembled_envelope [OF assms]
  by (auto simp: default_expirationDate_def FIVE_YEARS_MS_def)

theorem default_expiration_from_entry_clock_witness:
  "map expirationDate (linked_dids test_envelope) = [toISOString (1700000000000 + FIVE_YEARS_MS)]
    \<and> map issuanceDate (linked_dids test_envelope) = [toISOString 1700000000001]"
  using default_expiration_from_entry_clock [OF test_assemble] by simp
subsection \<open>The credential id\<close>

text \<open>
  C7. The codec is reversible: decoding the IRI made from a root hash gives the hash back.
  Hence, for an envelope assembled with this encoder, what the verifier recovers from
  the id of each linked credential (with this decoder) is the root hash of the credential
  the envelope was assembled from.
\<close>

theorem credential_id_codec_reversible:
  "fromCredentialIRI (toCredentialIRI root) = root
   \<and> (getDomainLinkagePresentation
         (sdk\<lparr>VcExport_toCredentialIRI := (\<lambda>r. Inr (toCredentialIRI r))\<rparr>)
         now_entry now_issue credential expirationDate_arg = Inr envelope
      \<longrightarrow> map (recoveredRootHash
                (sdk'\<lparr>VcExport_fromCredentialIRI := (\<lambda>i. Inr (fromCredentialIRI i))\<rparr>))
             (linked_dids envelope)
          = [Inr (rootHash credential)])"
proof (intro conjI impI)
  show inverse: "fromCredentialIRI (toCredentialIRI root) = root" for root
    by (simp add: fromCredentialIRI_def toCredentialIRI_def)
  assume "getDomainLinkagePresentation
         (sdk\<lparr>VcExport_toCredentialIRI := (\<lambda>r. Inr (toCredentialIRI r))\<rparr>)
         now_entry now_issue credential expirationDate_arg = Inr envelope"
  from assembled_envelope [OF this]
  have "map credential_id (linked_dids envelope) = [toCredentialIRI (rootHash credential)]"
    by auto
  then have "map (recoveredRootHash
                (sdk'\<lparr>VcExport_fromCredentialIRI := (\<lambda>i. Inr (fromCredentialIRI i))\<rparr>))
             (linked_dids envelope)
          = [Inr (fromCredentialIRI (toCredentialIRI (rootHash credential)))]"
    by (cases "linked_dids envelope") (auto simp: recoveredRootHash_def)
  then show "map (recoveredRootHash
                (sdk'\<lparr>VcExport_fromCredentialIRI := (\<lambda>i. Inr (fromCredentialIRI i))\<rparr>))
             (linked_dids envelope)
          = [Inr (rootHash credential)]"
    by (simp only: inverse)
qed

theorem credential_id_codec_reversible_witness:
  "fromCredentialIRI (toCredentialIRI test_rootHash) = test_rootHash
   \<and> map (recoveredRootHash test_sdk) (linked_dids test_envelope)
       = [Inr (rootHash test_presentation)]"
  using credential_id_codec_reversible [of test_rootHash test_sdk 1700000000000 1700000000001
      test_presentation None test_envelope test_sdk]
  by (simp add: test_sdk_codec test_assemble)

subsection \<open>The checks of the verifier\<close>

text \<open>
  C5. The claim has the call fail with \<open>MissingAssertionKeyError\<close> when the resolved
  document has no assertion-method key, an empty list included. With an empty list the
  callback raises a \<^verbatim>\<open>TypeError\<close> instead; with an absent list it raises the error
  claimed, as \<open>createCredential\<close> does in both cases.
\<close>

theorem verify_empty_assertionMethod_list:
  "verifyDidConfigPresentation test_sdk_empty_keys test_did test_envelope test_origin
     = {Inl TypeError}
   \<and> verifyDidConfigPresentation test_sdk_absent_keys test_did test_envelope test_origin
     = {Inl MissingAssertionKeyError}
   \<and> createCredential test_sdk_empty_keys test_signCallback test_origin test_did
     = Inl MissingAssertionKeyError"
  by (simp add: verifyDidConfigPresentation_def asyncSome_def verify_def createCredential_def
      test_sdk_empty_keys_def test_sdk_absent_keys_def test_sdk_def test_envelope_def
      test_entry_def test_did_def test_origin_def resolved_document_def first_assertionKey_def)

text \<open>
  C6. Counterexample. The DID syntax check comes before the issuer check: an entry whose
  subject id equals the expected DID, an ill-formed one, and whose issuer differs is
  rejected with \<open>InvalidDidError\<close>.
\<close>

theorem issuer_mismatch_counterexample:
  "subject_id (credentialSubject test_malformed_did_entry) = test_malformed_did
   \<and> issuer test_malformed_did_entry \<noteq> subject_id (credentialSubject test_malformed_did_entry)
   \<and> verifyDidConfigPresentation test_sdk test_malformed_did
         (test_envelope\<lparr>linked_dids := [test_malformed_did_entry]\<rparr>) test_origin
       = {Inl InvalidDidError}"
  by (simp add: verifyDidConfigPresentation_def asyncSome_def verify_def
      test_malformed_did_entry_def test_malformed_did_def test_entry_def test_sdk_def
      test_did_def)

text \<open>
  C6, amended. For an entry whose subject id equals the expected DID, when that DID passes
  the syntax check and the issuer differs from the subject id, the entry's check fails
  with \<open>IssuerMismatchError\<close> whatever the resolver and the signature verifier would
  answer; the call cannot succeed, and it fails with \<open>IssuerMismatchError\<close> when no
  entry fails with another error.
\<close>

theorem issuer_mismatch_rejected:
  assumes entry: "c \<in> set (linked_dids p)"
    and subject: "subject_id (credentialSubject c) = didUri"
    and did_valid: "Did_validateUri sdk didUri"
    and foreign: "issuer c \<noteq> subject_id (credentialSubject c)"
  shows "verify sdk didUri origin c = Inl IssuerMismatchError
    \<and> Inr () \<notin> verifyDidConfigPresentation sdk didUri p origin
    \<and> ((\<forall>c'\<in>set (linked_dids p). verify sdk didUri origin c' = Inr ()
            \<or> verify sdk didUri origin c' = Inl IssuerMismatchError)
         \<longrightarrow> verifyDidConfigPresentation sdk didUri p origin = {Inl IssuerMismatchError})"
proof (intro conjI impI)
  show bad: "verify sdk didUri origin c = Inl IssuerMismatchError"
    using subject did_valid foreign by (simp add: verify_def)
  have eq: "verifyDidConfigPresentation sdk didUri p origin
              = {r \<in> verify sdk didUri origin ` set (linked_dids p). isl r}"
    unfolding verifyDidConfigPresentation_def
    by (rule asyncSome_rejects [where check = "verify sdk didUri origin", OF entry bad])
  show "Inr () \<notin> verifyDidConfigPresentation sdk didUri p origin"
    by (simp add: eq)
  assume others: "\<forall>c'\<in>set (linked_dids p). verify sdk didUri origin c' = Inr ()
            \<or> verify sdk didUri origin c' = Inl IssuerMismatchError"
  show "verifyDidConfigPresentation sdk didUri p origin = {Inl IssuerMismatchError}"
  proof
    show "verifyDidConfigPresentation sdk didUri p origin \<subseteq> {Inl IssuerMismatchError}"
      unfolding eq using others by auto
    show "{Inl IssuerMismatchError} \<subseteq> verifyDidConfigPresentation sdk didUri p origin"
      unfolding eq using entry bad by force
  qed
qed

theorem issuer_mismatch_rejected_witness:
  "verify test_sdk test_did test_origin test_foreign_issuer_entry = Inl IssuerMismatchError
   \<and> Inr () \<notin> verifyDidConfigPresentation test_sdk test_did
        (test_envelope\<lparr>linked_dids := [test_entry, test_foreign_issuer_entry]\<rparr>) test_origin
   \<and> verifyDidConfigPresentation test_sdk test_did
        (test_envelope\<lparr>linked_dids := [test_entry, test_foreign_issuer_entry]\<rparr>) test_origin
       = {Inl IssuerMismatchError}"
proof -
  let ?p = "test_envelope\<lparr>linked_dids := [test_entry, test_foreign_issuer_entry]\<rparr>"
  have entry: "test_foreign_issuer_entry \<in> set (linked_dids ?p)"
    by simp
  have subject: "subject_id (credentialSubject test_foreign_issuer_entry) = test_did"
    by (simp add: test_foreign_issuer_entry_def test_entry_def)
  have did_valid: "Did_validateUri test_sdk test_did"
    by (simp add: test_sdk_def test_did_def)
  have foreign: "issuer test_foreign_issuer_entry
                   \<noteq> subject_id (credentialSubject test_foreign_issuer_entry)"
    by (simp add: test_foreign_issuer_entry_def test_entry_def test_did_def)
  have others: "\<forall>c'\<in>set (linked_dids ?p). verify test_sdk test_did test_origin c' = Inr ()
            \<or> verify test_sdk test_did test_origin c' = Inl IssuerMismatchError"
    by (simp add: test_verify_entry test_verify_foreign_issuer)
  from issuer_mismatch_rejected [OF entry subject did_valid foreign, of test_origin] others
  show ?thesis by blast
qed

subsection \<open>Origin validation at issuance\<close>

text \<open>
  The DID is resolved before the origin is looked at: when resolution gives no document,
  the call fails there, whatever the origin is.
\<close>

lemma unresolved_did_reported_first:
  assumes "Did_resolve sdk didUri = Inr fullDid"
    and "resolved_document fullDid = None"
  shows "createCredential sdk signCallback origin didUri = Inl DidResolutionError"
  using assms by (simp add: createCredential_def)

text \<open>
  C8. Origin validation follows DID resolution: for every string passed as origin that
  the URL validator does not accept and every DID whose resolution yields a document,
  \<open>createCredential\<close> fails with \<open>InvalidOriginError\<close>, whatever the document
  contains and whatever the signer would do.
\<close>

theorem invalid_origin_rejected:
  assumes "\<not> validUrl_isUri sdk origin"
    and "Did_resolve sdk didUri = Inr fullDid"
    and "resolved_document fullDid = Some doc"
  shows "createCredential sdk signCallback origin didUri = Inl InvalidOriginError"
  using assms by (simp add: createCredential_def)

theorem invalid_origin_rejected_witness:
  "createCredential test_sdk test_signCallback ''bad origin'' test_did = Inl InvalidOriginError"
proof (rule invalid_origin_rejected
    [where fullDid = "Some \<lparr> document = Some test_document \<rparr>" and doc = test_document])
  show "\<not> validUrl_isUri test_sdk ''bad origin''"
    by (simp add: test_sdk_def)
  show "Did_resolve test_sdk test_did = Inr (Some \<lparr> document = Some test_document \<rparr>)"
    by (simp add: test_sdk_def)
  show "resolved_document (Some \<lparr> document = Some test_document \<rparr>) = Some test_document"
    by (simp add: resolved_document_def)
qed

end
